theory Spec2Isabelle
  imports Complex_Main
begin

section \<open>The partition chart's canvas component\<close>

text \<open>
  A shallow embedding of \<^verbatim>\<open>src/chart_types/partition_chart/renderer/canvas/partition.tsx\<close>:
  the class \<^verbatim>\<open>PartitionComponent\<close> (constructor, \<^verbatim>\<open>drawCanvas\<close>,
  \<^verbatim>\<open>tryCanvasContext\<close>, \<^verbatim>\<open>componentDidUpdate\<close>, \<^verbatim>\<open>componentDidMount\<close>,
  \<^verbatim>\<open>handleMouseMove\<close>, \<^verbatim>\<open>render\<close>), \<^verbatim>\<open>DEFAULT_PROPS\<close> and
  \<^verbatim>\<open>mapStateToProps\<close>.

  Conventions of the embedding.
  \<^item> A JavaScript \<^verbatim>\<open>number\<close> is a \<^typ>\<open>real\<close>: the code only subtracts and multiplies
    numbers and compares them with \<^verbatim>\<open>0\<close>; rounding of IEEE doubles is not modelled.
  \<^item> \<^verbatim>\<open>null\<close> and \<^verbatim>\<open>undefined\<close> are \<^term>\<open>None\<close>; an object reference is truthy.
  \<^item> Field names carry the name of their interface where the bare name would clash
    (\<^verbatim>\<open>width\<close> of \<^verbatim>\<open>Dimensions\<close> and of \<^verbatim>\<open>Config\<close>, \<^verbatim>\<open>left\<close>, \<^verbatim>\<open>top\<close>) or
    would capture a variable name (\<^verbatim>\<open>x\<close>, \<^verbatim>\<open>y\<close>).
  \<^item> The interfaces \<^verbatim>\<open>Config\<close> and \<^verbatim>\<open>ShapeViewModel\<close> are declared outside this file and
    have more fields than the ones it reads. They are extensible records: the fields this file
    does not name are the \<open>more\<close> part of the record scheme (type parameters \<open>'c\<close>
    and \<open>'g\<close>). The type of the hierarchy keys is the parameter \<open>'k\<close>.
  \<^item> Calls that leave the component (DOM reads, the spatial query, the drawing routine, the
    dispatched action) are recorded, in call order, in the list \<open>calls\<close> of the world
    the methods run in.
\<close>

subsection \<open>Data model\<close>

record Dimensions =
  dim_width :: real
  dim_height :: real
  dim_left :: real
  dim_top :: real

record PointObject =
  point_x :: real
  point_y :: real

text \<open>
  A node of the hierarchy (\<^verbatim>\<open>ArrayNode\<close>): \<^verbatim>\<open>children\<close> is an ordered sequence of
  \<^verbatim>\<open>[key, node]\<close> entries, and \<^verbatim>\<open>node[INPUT_KEY]\<close> is an optional array of data-row
  indices (natural numbers here). The other attributes of a node are never read by this file.
\<close>

datatype 'k ArrayNode =
  ArrayNode (children: "('k \<times> 'k ArrayNode) list") (inputIndex: "nat list option")

record 'k QuadViewModel =
  parent :: "'k ArrayNode"
  dataName :: 'k

record Config =
  config_width :: real
  config_height :: real

record ('k, 'c) ShapeViewModel =
  config :: "'c Config_scheme"
  diskCenter :: PointObject
  pickQuads :: "real \<Rightarrow> real \<Rightarrow> 'k QuadViewModel list"

text \<open>The browser objects: an opaque drawing context, the canvas element, the mouse event.\<close>

datatype CanvasRenderingContext2D = CanvasRenderingContext2D nat

record DOMRect =
  rect_left :: real
  rect_top :: real

record HTMLCanvasElement =
  getContext2d :: "CanvasRenderingContext2D option"
  getBoundingClientRect :: DOMRect

record MouseEvent =
  clientX :: real
  clientY :: real

text \<open>
  \<^verbatim>\<open>ReactiveChartStateProps\<close>. The fourth prop, \<^verbatim>\<open>onChartRendered\<close>, is the bound action
  creator: calling it is the call \<open>OnChartRendered\<close> below.
\<close>

record ('k, 'c, 'g) PartitionProps =
  initialized :: bool
  geometries :: "('k, 'c, 'g) ShapeViewModel_scheme"
  chartContainerDimensions :: Dimensions

record ('k, 'c, 'g) PartitionComponent =
  props :: "('k, 'c, 'g) PartitionProps"
  canvasRef :: "HTMLCanvasElement option"
  ctx :: "CanvasRenderingContext2D option"
  devicePixelRatio :: real

datatype ('k, 'c, 'g) call =
    GetContext
  | RenderPartitionCanvas2d CanvasRenderingContext2D real "('k, 'c, 'g) ShapeViewModel_scheme"
  | OnChartRendered
  | GetBoundingClientRect
  | PickQuads real real

record ('k, 'c, 'g) world =
  component :: "('k, 'c, 'g) PartitionComponent"
  calls :: "('k, 'c, 'g) call list"

subsection \<open>Construction and drawing\<close>

definition constructor ::
  "('k, 'c, 'g) PartitionProps \<Rightarrow> real \<Rightarrow> ('k, 'c, 'g) PartitionComponent" where
  "constructor p window_devicePixelRatio =
     \<lparr>props = p, canvasRef = None, ctx = None, devicePixelRatio = window_devicePixelRatio\<rparr>"

definition drawCanvas :: "('k, 'c, 'g) world \<Rightarrow> ('k, 'c, 'g) world" where
  "drawCanvas w =
     (case ctx (component w) of
        None \<Rightarrow> w
      | Some c \<Rightarrow>
          (let width = dim_width (chartContainerDimensions (props (component w)));
               height = dim_height (chartContainerDimensions (props (component w)))
           in w\<lparr>calls := calls w @
                [RenderPartitionCanvas2d c (devicePixelRatio (component w))
                   ((geometries (props (component w)))
                      \<lparr>config := (config (geometries (props (component w))))
                          \<lparr>config_width := width, config_height := height\<rparr>\<rparr>)]\<rparr>))"

definition tryCanvasContext :: "('k, 'c, 'g) world \<Rightarrow> ('k, 'c, 'g) world" where
  "tryCanvasContext w =
     (case canvasRef (component w) of
        None \<Rightarrow> w\<lparr>component := (component w)\<lparr>ctx := None\<rparr>\<rparr>
      | Some canvas \<Rightarrow>
          w\<lparr>component := (component w)\<lparr>ctx := getContext2d canvas\<rparr>,
            calls := calls w @ [GetContext]\<rparr>)"

definition onChartRendered :: "('k, 'c, 'g) world \<Rightarrow> ('k, 'c, 'g) world" where
  "onChartRendered w = w\<lparr>calls := calls w @ [OnChartRendered]\<rparr>"

definition componentDidUpdate :: "('k, 'c, 'g) world \<Rightarrow> ('k, 'c, 'g) world" where
  "componentDidUpdate w =
     (let w1 = (if ctx (component w) = None then tryCanvasContext w else w)
      in if initialized (props (component w1)) then onChartRendered (drawCanvas w1) else w1)"

definition componentDidMount :: "('k, 'c, 'g) world \<Rightarrow> ('k, 'c, 'g) world" where
  "componentDidMount w =
     (let w1 = tryCanvasContext w
      in if initialized (props (component w1)) then onChartRendered (drawCanvas w1) else w1)"

subsection \<open>Picking\<close>

text \<open>
  \<^verbatim>\<open>datumIndices\<close> is a JavaScript \<^verbatim>\<open>Set\<close>: its elements in insertion order, without
  duplicates. \<^verbatim>\<open>Set.prototype.add\<close> appends a value that is not yet an element.
\<close>

definition Set_add :: "'a list \<Rightarrow> 'a \<Rightarrow> 'a list" where
  "Set_add s v = (if v \<in> set s then s else s @ [v])"

text \<open>The callback of \<^verbatim>\<open>pickedShapes.forEach\<close>, as a function of the set it adds to.\<close>

definition forEach_shape :: "'k QuadViewModel \<Rightarrow> nat list \<Rightarrow> nat list" where
  "forEach_shape shape datumIndices =
     (let node = parent shape;
          shapeNode = find (\<lambda>(key, _). key = dataName shape) (children node)
      in case shapeNode of
           None \<Rightarrow> datumIndices
         | Some entry \<Rightarrow>
             (let indices = (case inputIndex (snd entry) of None \<Rightarrow> [] | Some a \<Rightarrow> a)
              in fold (\<lambda>i s. Set_add s i) indices datumIndices))"

text \<open>
  The local variables of \<^verbatim>\<open>handleMouseMove\<close> when its last \<^verbatim>\<open>return\<close> is reached.
  \<^verbatim>\<open>datumIndices\<close> is computed and then dropped: only \<^verbatim>\<open>pickedShapes\<close> is returned.
\<close>

record 'k pick_locals =
  pickedShapes :: "'k QuadViewModel list"
  datumIndices :: "nat list"

definition handleMouseMove_body ::
  "MouseEvent \<Rightarrow> ('k, 'c, 'g) world \<Rightarrow> 'k pick_locals option \<times> ('k, 'c, 'g) world" where
  "handleMouseMove_body e w =
     (let width = dim_width (chartContainerDimensions (props (component w)));
          height = dim_height (chartContainerDimensions (props (component w)))
      in case canvasRef (component w) of
           None \<Rightarrow> (None, w)
         | Some canvas \<Rightarrow>
             if ctx (component w) = None \<or> \<not> initialized (props (component w))
                \<or> width = 0 \<or> height = 0
             then (None, w)
             else
               (let picker = pickQuads (geometries (props (component w)));
                    box = getBoundingClientRect canvas;
                    diskCenter = diskCenter (geometries (props (component w)));
                    x = clientX e - rect_left box - point_x diskCenter;
                    y = clientY e - rect_top box - point_y diskCenter;
                    pickedShapes = picker x y;
                    datumIndices = fold forEach_shape pickedShapes []
                in (Some \<lparr>pickedShapes = pickedShapes, datumIndices = datumIndices\<rparr>,
                    w\<lparr>calls := calls w @ [GetBoundingClientRect, PickQuads x y]\<rparr>)))"

definition handleMouseMove ::
  "MouseEvent \<Rightarrow> ('k, 'c, 'g) world \<Rightarrow> 'k QuadViewModel list option \<times> ('k, 'c, 'g) world" where
  "handleMouseMove e w =
     (case handleMouseMove_body e w of (locals, w') \<Rightarrow> (map_option pickedShapes locals, w'))"

subsection \<open>Rendering the element\<close>

text \<open>
  The \<^verbatim>\<open><canvas>\<close> element that \<^verbatim>\<open>render\<close> returns: its class, its \<^verbatim>\<open>width\<close> and
  \<^verbatim>\<open>height\<close> attributes (the backing store, in device pixels) and the \<^verbatim>\<open>width\<close> and
  \<^verbatim>\<open>height\<close> of its style (the displayed size). Its \<^verbatim>\<open>ref\<close> is \<^verbatim>\<open>canvasRef\<close> and its
  \<^verbatim>\<open>onMouseMove\<close> is \<^verbatim>\<open>handleMouseMove\<close>.
\<close>

record CanvasElement =
  className :: string
  canvas_width :: real
  canvas_height :: real
  style_width :: real
  style_height :: real

definition render :: "('k, 'c, 'g) PartitionComponent \<Rightarrow> CanvasElement option" where
  "render this =
     (let width = dim_width (chartContainerDimensions (props this));
          height = dim_height (chartContainerDimensions (props this))
      in if \<not> initialized (props this) \<or> width = 0 \<or> height = 0 then None
         else Some \<lparr>className = ''echCanvasRenderer'',
                    canvas_width = width * devicePixelRatio this,
                    canvas_height = height * devicePixelRatio this,
                    style_width = width,
                    style_height = height\<rparr>)"

subsection \<open>The life of a component\<close>

text \<open>
  The worlds a component constructed with pixel ratio \<open>r\<close> can be in: the host framework
  constructs it, hands it new props, attaches or detaches the canvas element behind
  \<^verbatim>\<open>canvasRef\<close>, and calls the lifecycle methods and the mouse handler.
\<close>

inductive lifecycle :: "real \<Rightarrow> ('k, 'c, 'g) world \<Rightarrow> bool" for r :: real where
  constructed: "lifecycle r \<lparr>component = constructor p r, calls = []\<rparr>"
| new_props: "lifecycle r w \<Longrightarrow> lifecycle r (w\<lparr>component := (component w)\<lparr>props := p\<rparr>\<rparr>)"
| new_ref: "lifecycle r w \<Longrightarrow> lifecycle r (w\<lparr>component := (component w)\<lparr>canvasRef := c\<rparr>\<rparr>)"
| did_mount: "lifecycle r w \<Longrightarrow> lifecycle r (componentDidMount w)"
| did_update: "lifecycle r w \<Longrightarrow> lifecycle r (componentDidUpdate w)"
| mouse_move: "lifecycle r w \<Longrightarrow> lifecycle r (snd (handleMouseMove e w))"

subsection \<open>Projecting the host state\<close>

text \<open>
  \<^verbatim>\<open>GlobalChartState\<close> is declared outside this file; \<^verbatim>\<open>mapStateToProps\<close> reads its
  \<^verbatim>\<open>parentDimensions\<close>. The selectors \<^verbatim>\<open>isInitialized\<close> and \<^verbatim>\<open>partitionGeometries\<close>
  and the value of \<^verbatim>\<open>nullShapeViewModel()\<close> are imported: they are parameters here.
\<close>

record GlobalChartState =
  parentDimensions :: Dimensions

definition DEFAULT_PROPS ::
  "('k, 'c, 'g) ShapeViewModel_scheme \<Rightarrow> ('k, 'c, 'g) PartitionProps" where
  "DEFAULT_PROPS nullShapeViewModel =
     \<lparr>initialized = False,
      geometries = nullShapeViewModel,
      chartContainerDimensions = \<lparr>dim_width = 0, dim_height = 0, dim_left = 0, dim_top = 0\<rparr>\<rparr>"

definition mapStateToProps ::
  "('s GlobalChartState_scheme \<Rightarrow> bool) \<Rightarrow>
   ('s GlobalChartState_scheme \<Rightarrow> ('k, 'c, 'g) ShapeViewModel_scheme) \<Rightarrow>
   ('k, 'c, 'g) ShapeViewModel_scheme \<Rightarrow>
   's GlobalChartState_scheme \<Rightarrow> ('k, 'c, 'g) PartitionProps" where
  "mapStateToProps isInitialized partitionGeometries nullShapeViewModel state =
     (if \<not> isInitialized state then DEFAULT_PROPS nullShapeViewModel
      else \<lparr>initialized = True,
            geometries = partitionGeometries state,
            chartContainerDimensions = parentDimensions state\<rparr>)"

subsection \<open>Notions the properties are stated with\<close>

text \<open>The calls a method added to the record of calls, and the calls of the drawing routine.\<close>

definition new_calls ::
  "('k, 'c, 'g) world \<Rightarrow> ('k, 'c, 'g) world \<Rightarrow> ('k, 'c, 'g) call list" where
  "new_calls w w' = drop (length (calls w)) (calls w')"

fun is_draw :: "('k, 'c, 'g) call \<Rightarrow> bool" where
  "is_draw (RenderPartitionCanvas2d _ _ _) = True"
| "is_draw _ = False"

text \<open>
  The conditions under which \<^verbatim>\<open>handleMouseMove\<close> gives up: no mounted surface, no context,
  chart not initialized, or a container dimension that is zero.
\<close>

definition pick_suppressed :: "('k, 'c, 'g) PartitionComponent \<Rightarrow> bool" where
  "pick_suppressed this \<longleftrightarrow>
     canvasRef this = None \<or> ctx this = None \<or> \<not> initialized (props this) \<or>
     dim_width (chartContainerDimensions (props this)) = 0 \<or>
     dim_height (chartContainerDimensions (props this)) = 0"

text \<open>
  What a picked shape stands for, in the words of the specification: the subtree among the
  children of the shape's parent whose key is the shape's \<^verbatim>\<open>dataName\<close>, and the data-row
  indices that subtree carries (none when there is no such subtree, or no index attribute).
\<close>

definition resolved_subtree :: "'k QuadViewModel \<Rightarrow> 'k ArrayNode option" where
  "resolved_subtree shape = map_of (children (parent shape)) (dataName shape)"

definition subtree_indices :: "'k QuadViewModel \<Rightarrow> nat set" where
  "subtree_indices shape =
     (case resolved_subtree shape of
        None \<Rightarrow> {}
      | Some node \<Rightarrow> (case inputIndex node of None \<Rightarrow> {} | Some a \<Rightarrow> set a))"

subsection \<open>A concrete chart\<close>

text \<open>
  A parent node with three leaves (\<open>a\<close> carries rows 1 and 2, \<open>b\<close> rows 2 and 3, \<open>c\<close> has
  no index attribute), a geometry whose disk is centred at (50, 50) and whose shapes \<open>a\<close>
  and \<open>b\<close> both cover the centre, and a canvas whose bounding rectangle starts at (10, 10).
\<close>

abbreviation example_node :: "string ArrayNode" where
  "example_node \<equiv>
     ArrayNode [(''a'', ArrayNode [] (Some [1, 2])),
                (''b'', ArrayNode [] (Some [2, 3])),
                (''c'', ArrayNode [] None)] None"

abbreviation example_shape :: "string \<Rightarrow> string QuadViewModel" where
  "example_shape k \<equiv> \<lparr>parent = example_node, dataName = k\<rparr>"

abbreviation example_geometries :: "(string, string, string) ShapeViewModel_scheme" where
  "example_geometries \<equiv>
     \<lparr>config = \<lparr>config_width = 640, config_height = 480, \<dots> = ''fontFamily''\<rparr>,
      diskCenter = \<lparr>point_x = 50, point_y = 50\<rparr>,
      pickQuads = (\<lambda>x y. if x = 0 \<and> y = 0 then [example_shape ''a'', example_shape ''b''] else []),
      \<dots> = ''quadViewModel''\<rparr>"

text \<open>The same geometry with a query that also finds a shape \<open>z\<close>, which is no child of the parent.\<close>

abbreviation example_stray_geometries :: "(string, string, string) ShapeViewModel_scheme" where
  "example_stray_geometries \<equiv>
     example_geometries
       \<lparr>pickQuads := \<lambda>x y. [example_shape ''a'', example_shape ''z'', example_shape ''b'']\<rparr>"

abbreviation example_canvas :: HTMLCanvasElement where
  "example_canvas \<equiv>
     \<lparr>getContext2d = Some (CanvasRenderingContext2D 0),
      getBoundingClientRect = \<lparr>rect_left = 10, rect_top = 10\<rparr>\<rparr>"

abbreviation example_props :: "bool \<Rightarrow> real \<Rightarrow> real \<Rightarrow> (string, string, string) PartitionProps" where
  "example_props i w h \<equiv>
     \<lparr>initialized = i,
      geometries = example_geometries,
      chartContainerDimensions = \<lparr>dim_width = w, dim_height = h, dim_left = 0, dim_top = 0\<rparr>\<rparr>"

abbreviation example_world ::
  "(string, string, string) PartitionProps \<Rightarrow> HTMLCanvasElement option \<Rightarrow>
   CanvasRenderingContext2D option \<Rightarrow> (string, string, string) world" where
  "example_world p canvas c \<equiv>
     \<lparr>component = \<lparr>props = p, canvasRef = canvas, ctx = c, devicePixelRatio = 2\<rparr>, calls = []\<rparr>"

section \<open>Properties\<close>

subsection \<open>The render dispatch\<close>

lemma drawCanvas_no_context: "ctx (component w) = None \<Longrightarrow> drawCanvas w = w"
  by (simp add: drawCanvas_def)

text \<open>
  C5. Without a drawing context \<^verbatim>\<open>drawCanvas\<close> changes nothing: no call is made and the
  component is as before. With a context \<open>c\<close> it makes exactly one call, to the drawing routine,
  with \<open>c\<close>, the component's pixel ratio and a geometry \<open>g\<close> whose \<^verbatim>\<open>config.width\<close>
  and \<^verbatim>\<open>config.height\<close> are the width and height of the container; every other field of
  the configuration and every other field of the geometry is the one of the props.
\<close>

theorem drawCanvas_dispatch:
  "(ctx (component w) = None \<longrightarrow> drawCanvas w = w) \<and>
   (\<forall>c. ctx (component w) = Some c \<longrightarrow>
      (\<exists>g. drawCanvas w =
             w\<lparr>calls := calls w @ [RenderPartitionCanvas2d c (devicePixelRatio (component w)) g]\<rparr> \<and>
           config_width (config g) = dim_width (chartContainerDimensions (props (component w))) \<and>
           config_height (config g) = dim_height (chartContainerDimensions (props (component w))) \<and>
           Config.more (config g) = Config.more (config (geometries (props (component w)))) \<and>
           diskCenter g = diskCenter (geometries (props (component w))) \<and>
           pickQuads g = pickQuads (geometries (props (component w))) \<and>
           ShapeViewModel.more g = ShapeViewModel.more (geometries (props (component w)))))"
proof (intro conjI allI impI)
  assume "ctx (component w) = None"
  then show "drawCanvas w = w" by (rule drawCanvas_no_context)
next
  fix c
  assume c: "ctx (component w) = Some c"
  let ?d = "chartContainerDimensions (props (component w))"
  let ?g = "(geometries (props (component w)))
              \<lparr>config := (config (geometries (props (component w))))
                  \<lparr>config_width := dim_width ?d, config_height := dim_height ?d\<rparr>\<rparr>"
  from c have "drawCanvas w =
      w\<lparr>calls := calls w @ [RenderPartitionCanvas2d c (devicePixelRatio (component w)) ?g]\<rparr>"
    by (simp add: drawCanvas_def)
  then show "\<exists>g. drawCanvas w =
             w\<lparr>calls := calls w @ [RenderPartitionCanvas2d c (devicePixelRatio (component w)) g]\<rparr> \<and>
           config_width (config g) = dim_width (chartContainerDimensions (props (component w))) \<and>
           config_height (config g) = dim_height (chartContainerDimensions (props (component w))) \<and>
           Config.more (config g) = Config.more (config (geometries (props (component w)))) \<and>
           diskCenter g = diskCenter (geometries (props (component w))) \<and>
           pickQuads g = pickQuads (geometries (props (component w))) \<and>
           ShapeViewModel.more g = ShapeViewModel.more (geometries (props (component w)))"
    by (intro exI[of _ ?g]) simp
qed

text \<open>
  The dispatch on the concrete chart, in a 300 by 200 container: nothing without a context;
  with one, the geometry handed over is 300 by 200 (it was laid out for 640 by 480) and keeps
  its other fields.
\<close>

theorem drawCanvas_dispatch_witness:
  "drawCanvas (example_world (example_props True 300 200) None None) =
     example_world (example_props True 300 200) None None \<and>
   (\<exists>g. drawCanvas (example_world (example_props True 300 200) (Some example_canvas)
                     (Some (CanvasRenderingContext2D 0))) =
          \<lparr>component = \<lparr>props = example_props True 300 200, canvasRef = Some example_canvas,
                         ctx = Some (CanvasRenderingContext2D 0), devicePixelRatio = 2\<rparr>,
            calls = [RenderPartitionCanvas2d (CanvasRenderingContext2D 0) 2 g]\<rparr> \<and>
        config_width (config g) = 300 \<and> config_height (config g) = 200 \<and>
        Config.more (config g) = ''fontFamily'' \<and>
        diskCenter g = \<lparr>point_x = 50, point_y = 50\<rparr> \<and>
        pickQuads g 0 0 = [example_shape ''a'', example_shape ''b''] \<and>
        ShapeViewModel.more g = ''quadViewModel'')"
proof -
  let ?off = "example_world (example_props True 300 200) None None"
  let ?on = "example_world (example_props True 300 200) (Some example_canvas)
               (Some (CanvasRenderingContext2D 0))"
  have off: "drawCanvas ?off = ?off"
    using drawCanvas_dispatch [of ?off] by simp
  have "ctx (component ?on) = Some (CanvasRenderingContext2D 0)" by simp
  with drawCanvas_dispatch [of ?on] obtain g where
    g: "drawCanvas ?on =
          ?on\<lparr>calls := calls ?on @
            [RenderPartitionCanvas2d (CanvasRenderingContext2D 0) (devicePixelRatio (component ?on)) g]\<rparr>"
      "config_width (config g) = dim_width (chartContainerDimensions (props (component ?on)))"
      "config_height (config g) = dim_height (chartContainerDimensions (props (component ?on)))"
      "Config.more (config g) = Config.more (config (geometries (props (component ?on))))"
      "diskCenter g = diskCenter (geometries (props (component ?on)))"
      "pickQuads g = pickQuads (geometries (props (component ?on)))"
      "ShapeViewModel.more g = ShapeViewModel.more (geometries (props (component ?on)))"
    by blast
  show ?thesis
    by (intro conjI exI [of _ g]) (simp_all add: off g)
qed

subsection \<open>Aggregating the data-row indices\<close>

lemma find_key_map_of:
  "map_option snd (find (\<lambda>(key, _). key = k) ps) = map_of ps k"
  by (induction ps) auto

lemma set_fold_Set_add: "set (fold (\<lambda>i s. Set_add s i) xs acc) = set acc \<union> set xs"
  by (induction xs arbitrary: acc) (auto simp: Set_add_def)

lemma distinct_fold_Set_add:
  "distinct acc \<Longrightarrow> distinct (fold (\<lambda>i s. Set_add s i) xs acc)"
  by (induction xs arbitrary: acc) (auto simp: Set_add_def)

lemma set_forEach_shape:
  "set (forEach_shape shape acc) = set acc \<union> subtree_indices shape"
proof -
  have m: "map_option snd (find (\<lambda>(key, _). key = dataName shape) (children (parent shape)))
             = resolved_subtree shape"
    by (simp add: find_key_map_of resolved_subtree_def)
  show ?thesis
  proof (cases "find (\<lambda>(key, _). key = dataName shape) (children (parent shape))")
    case None
    with m show ?thesis
      by (simp add: forEach_shape_def subtree_indices_def)
  next
    case (Some entry)
    with m have "resolved_subtree shape = Some (snd entry)" by simp
    with Some show ?thesis
      by (simp add: forEach_shape_def subtree_indices_def set_fold_Set_add split: option.split)
  qed
qed

lemma distinct_forEach_shape: "distinct acc \<Longrightarrow> distinct (forEach_shape shape acc)"
  by (simp add: forEach_shape_def distinct_fold_Set_add split: option.split)

lemma forEach_shape_unresolved:
  "resolved_subtree shape = None \<Longrightarrow> forEach_shape shape acc = acc"
proof -
  assume "resolved_subtree shape = None"
  then have "map_option snd (find (\<lambda>(key, _). key = dataName shape) (children (parent shape))) = None"
    by (simp add: find_key_map_of resolved_subtree_def)
  then show ?thesis by (simp add: forEach_shape_def)
qed

lemma forEach_shape_no_indices:
  assumes "resolved_subtree shape = Some node" "inputIndex node = None"
  shows "forEach_shape shape acc = acc"
proof -
  have "map_option snd (find (\<lambda>(key, _). key = dataName shape) (children (parent shape))) = Some node"
    using assms(1) by (simp add: find_key_map_of resolved_subtree_def)
  then obtain entry where
    "find (\<lambda>(key, _). key = dataName shape) (children (parent shape)) = Some entry" "snd entry = node"
    by auto
  with assms(2) show ?thesis by (simp add: forEach_shape_def)
qed

lemma set_fold_forEach_shape:
  "set (fold forEach_shape shapes acc) = set acc \<union> (\<Union>shape\<in>set shapes. subtree_indices shape)"
  by (induction shapes arbitrary: acc) (auto simp: set_forEach_shape)

lemma distinct_fold_forEach_shape:
  "distinct acc \<Longrightarrow> distinct (fold forEach_shape shapes acc)"
  by (induction shapes arbitrary: acc) (auto simp: distinct_forEach_shape)

lemma fold_forEach_shape_skip:
  "forEach_shape shape = (\<lambda>acc. acc) \<Longrightarrow>
     fold forEach_shape (before @ shape # after) [] = fold forEach_shape (before @ after) []"
  by simp

lemma forEach_shape_contributes_nothing:
  "resolved_subtree shape = None \<or>
   (\<exists>node. resolved_subtree shape = Some node \<and> inputIndex node = None) \<Longrightarrow>
     forEach_shape shape = (\<lambda>acc. acc) \<and> subtree_indices shape = {}"
  by (auto simp: forEach_shape_unresolved forEach_shape_no_indices subtree_indices_def fun_eq_iff)

subsection \<open>Picking\<close>

lemma handleMouseMove_body_suppressed:
  "pick_suppressed (component w) \<Longrightarrow> handleMouseMove_body e w = (None, w)"
  by (auto simp: pick_suppressed_def handleMouseMove_body_def Let_def split: option.split)

lemma handleMouseMove_body_ready:
  assumes "\<not> pick_suppressed (component w)" "canvasRef (component w) = Some canvas"
  shows "handleMouseMove_body e w =
     (let g = geometries (props (component w));
          x = clientX e - rect_left (getBoundingClientRect canvas) - point_x (diskCenter g);
          y = clientY e - rect_top (getBoundingClientRect canvas) - point_y (diskCenter g)
      in (Some \<lparr>pickedShapes = pickQuads g x y,
                 datumIndices = fold forEach_shape (pickQuads g x y) []\<rparr>,
          w\<lparr>calls := calls w @ [GetBoundingClientRect, PickQuads x y]\<rparr>))"
  using assms by (simp add: pick_suppressed_def handleMouseMove_body_def Let_def)

lemma fst_handleMouseMove:
  "fst (handleMouseMove e w) = map_option pickedShapes (fst (handleMouseMove_body e w))"
  by (simp add: handleMouseMove_def split: prod.split)

lemma snd_handleMouseMove: "snd (handleMouseMove e w) = snd (handleMouseMove_body e w)"
  by (simp add: handleMouseMove_def split: prod.split)

lemma handleMouseMove_body_component:
  "component (snd (handleMouseMove_body e w)) = component w"
  by (simp add: handleMouseMove_body_def Let_def split: option.split)

lemma handleMouseMove_body_fst_cong:
  "component w' = component w \<Longrightarrow> fst (handleMouseMove_body e w') = fst (handleMouseMove_body e w)"
  by (auto simp: handleMouseMove_body_def Let_def split: option.split)

text \<open>
  C3. When the pick is not suppressed, the set \<^verbatim>\<open>datumIndices\<close> that \<^verbatim>\<open>handleMouseMove\<close>
  has built when it returns holds exactly the indices of the resolved subtrees of all the
  shapes the spatial query gave, each once. A picked shape whose \<^verbatim>\<open>dataName\<close> is the key of
  no child of its parent, or whose subtree has no index attribute, stands for no index: the
  handler still returns, and the set is the union over the other picked shapes, the very
  set the loop builds from the sequence without that shape.
\<close>

theorem datumIndices_union:
  assumes "\<not> pick_suppressed (component w)" and "canvasRef (component w) = Some canvas"
    and "shapes =
      pickQuads (geometries (props (component w)))
        (clientX e - rect_left (getBoundingClientRect canvas)
           - point_x (diskCenter (geometries (props (component w)))))
        (clientY e - rect_top (getBoundingClientRect canvas)
           - point_y (diskCenter (geometries (props (component w)))))"
  shows "\<exists>ds. fst (handleMouseMove_body e w) = Some \<lparr>pickedShapes = shapes, datumIndices = ds\<rparr> \<and>
      set ds = (\<Union>shape\<in>set shapes. subtree_indices shape) \<and>
      distinct ds \<and>
      (\<forall>before shape after.
         shapes = before @ shape # after \<and>
         (resolved_subtree shape = None \<or>
          (\<exists>node. resolved_subtree shape = Some node \<and> inputIndex node = None)) \<longrightarrow>
           subtree_indices shape = {} \<and>
           set ds = (\<Union>other\<in>set before \<union> set after. subtree_indices other) \<and>
           ds = fold forEach_shape (before @ after) [])"
proof -
  let ?ds = "fold forEach_shape shapes []"
  from handleMouseMove_body_ready [OF assms(1,2), of e] assms(3)
  have body: "fst (handleMouseMove_body e w) = Some \<lparr>pickedShapes = shapes, datumIndices = ?ds\<rparr>"
    by (simp add: Let_def)
  have skip: "subtree_indices shape = {} \<and>
      set ?ds = (\<Union>other\<in>set before \<union> set after. subtree_indices other) \<and>
      ?ds = fold forEach_shape (before @ after) []"
    if s: "shapes = before @ shape # after"
      and n: "resolved_subtree shape = None \<or>
        (\<exists>node. resolved_subtree shape = Some node \<and> inputIndex node = None)"
    for before shape after
  proof -
    from forEach_shape_contributes_nothing [OF n]
    have id: "forEach_shape shape = (\<lambda>acc. acc)" and e: "subtree_indices shape = {}"
      by simp_all
    have "?ds = fold forEach_shape (before @ after) []"
      unfolding s by (rule fold_forEach_shape_skip [OF id])
    moreover have "set (fold forEach_shape (before @ after) []) =
        (\<Union>other\<in>set before \<union> set after. subtree_indices other)"
      by (simp add: set_fold_forEach_shape)
    ultimately show ?thesis using e by simp
  qed
  show ?thesis
  proof (intro exI [of _ ?ds] conjI allI impI)
    show "fst (handleMouseMove_body e w) = Some \<lparr>pickedShapes = shapes, datumIndices = ?ds\<rparr>"
      by (rule body)
    show "set ?ds = (\<Union>shape\<in>set shapes. subtree_indices shape)"
      by (simp add: set_fold_forEach_shape)
    show "distinct ?ds" by (simp add: distinct_fold_forEach_shape)
  next
    fix before shape after
    assume a: "shapes = before @ shape # after \<and>
         (resolved_subtree shape = None \<or>
          (\<exists>node. resolved_subtree shape = Some node \<and> inputIndex node = None))"
    then have s: "shapes = before @ shape # after" by (rule conjunct1)
    from a have n: "resolved_subtree shape = None \<or>
        (\<exists>node. resolved_subtree shape = Some node \<and> inputIndex node = None)"
      by (rule conjunct2)
    note r = skip [OF s n]
    show "subtree_indices shape = {}" by (rule r [THEN conjunct1])
    show "set ?ds = (\<Union>other\<in>set before \<union> set after. subtree_indices other)"
      by (rule r [THEN conjunct2, THEN conjunct1])
    show "?ds = fold forEach_shape (before @ after) []"
      by (rule r [THEN conjunct2, THEN conjunct2])
  qed
qed

text \<open>
  On the concrete chart: the query gives \<open>a\<close> (rows 1, 2) and \<open>b\<close> (rows 2, 3), and the
  handler aggregates 1, 2, 3. With the query that also gives \<open>z\<close> between them, the handler
  aggregates 1, 2, 3 as well.
\<close>

theorem datumIndices_union_witness:
  "subtree_indices (example_shape ''a'') = {1, 2} \<and>
   subtree_indices (example_shape ''b'') = {2, 3} \<and>
   resolved_subtree (example_shape ''z'') = None \<and>
   (\<exists>ds. fst (handleMouseMove_body \<lparr>clientX = 60, clientY = 60\<rparr>
       (example_world (example_props True 300 200) (Some example_canvas)
          (Some (CanvasRenderingContext2D 0)))) =
       Some \<lparr>pickedShapes = [example_shape ''a'', example_shape ''b''], datumIndices = ds\<rparr> \<and>
     set ds = {1, 2, 3} \<and> distinct ds) \<and>
   (\<exists>ds. fst (handleMouseMove_body \<lparr>clientX = 60, clientY = 60\<rparr>
       (example_world
          \<lparr>initialized = True, geometries = example_stray_geometries,
           chartContainerDimensions =
             \<lparr>dim_width = 300, dim_height = 200, dim_left = 0, dim_top = 0\<rparr>\<rparr>
          (Some example_canvas) (Some (CanvasRenderingContext2D 0)))) =
       Some \<lparr>pickedShapes = [example_shape ''a'', example_shape ''z'', example_shape ''b''],
             datumIndices = ds\<rparr> \<and>
     set ds = {1, 2, 3} \<and> distinct ds \<and> ds = [1, 2, 3])"
proof -
  let ?e = "\<lparr>clientX = 60, clientY = 60\<rparr>"
  let ?w = "example_world (example_props True 300 200) (Some example_canvas)
        (Some (CanvasRenderingContext2D 0))"
  let ?v = "example_world
          \<lparr>initialized = True, geometries = example_stray_geometries,
           chartContainerDimensions =
             \<lparr>dim_width = 300, dim_height = 200, dim_left = 0, dim_top = 0\<rparr>\<rparr>
          (Some example_canvas) (Some (CanvasRenderingContext2D 0))"
  let ?ab = "[example_shape ''a'', example_shape ''b'']"
  let ?azb = "[example_shape ''a'', example_shape ''z'', example_shape ''b'']"
  have a: "subtree_indices (example_shape ''a'') = {1, 2}"
    by (simp add: subtree_indices_def resolved_subtree_def)
  have b: "subtree_indices (example_shape ''b'') = {2, 3}"
    by (simp add: subtree_indices_def resolved_subtree_def)
  have z: "resolved_subtree (example_shape ''z'') = None"
    by (simp add: resolved_subtree_def)
  have rw: "\<not> pick_suppressed (component ?w)" "canvasRef (component ?w) = Some example_canvas"
    and rv: "\<not> pick_suppressed (component ?v)" "canvasRef (component ?v) = Some example_canvas"
    by (simp_all add: pick_suppressed_def)
  have qw: "?ab = pickQuads (geometries (props (component ?w)))
        (clientX ?e - rect_left (getBoundingClientRect example_canvas)
           - point_x (diskCenter (geometries (props (component ?w)))))
        (clientY ?e - rect_top (getBoundingClientRect example_canvas)
           - point_y (diskCenter (geometries (props (component ?w)))))"
    by simp
  have qv: "?azb = pickQuads (geometries (props (component ?v)))
        (clientX ?e - rect_left (getBoundingClientRect example_canvas)
           - point_x (diskCenter (geometries (props (component ?v)))))
        (clientY ?e - rect_top (getBoundingClientRect example_canvas)
           - point_y (diskCenter (geometries (props (component ?v)))))"
    by simp
  from datumIndices_union [OF rw qw] obtain ds where
    ds: "fst (handleMouseMove_body ?e ?w) = Some \<lparr>pickedShapes = ?ab, datumIndices = ds\<rparr>"
      "set ds = (\<Union>shape\<in>set ?ab. subtree_indices shape)" "distinct ds"
    by (elim exE conjE)
  from ds(2) a b have "set ds = {1, 2, 3}" by auto
  with ds(1,3)
  have first: "\<exists>ds. fst (handleMouseMove_body ?e ?w) =
      Some \<lparr>pickedShapes = ?ab, datumIndices = ds\<rparr> \<and> set ds = {1, 2, 3} \<and> distinct ds"
    by (intro exI [of _ ds] conjI)
  from datumIndices_union [OF rv qv] obtain es where
    es: "fst (handleMouseMove_body ?e ?v) = Some \<lparr>pickedShapes = ?azb, datumIndices = es\<rparr>"
      "set es = (\<Union>shape\<in>set ?azb. subtree_indices shape)" "distinct es"
      "\<forall>before shape after.
         ?azb = before @ shape # after \<and>
         (resolved_subtree shape = None \<or>
          (\<exists>node. resolved_subtree shape = Some node \<and> inputIndex node = None)) \<longrightarrow>
           subtree_indices shape = {} \<and>
           set es = (\<Union>other\<in>set before \<union> set after. subtree_indices other) \<and>
           es = fold forEach_shape (before @ after) []"
    by (elim exE conjE)
  have prem: "?azb = [example_shape ''a''] @ example_shape ''z'' # [example_shape ''b''] \<and>
      (resolved_subtree (example_shape ''z'') = None \<or>
       (\<exists>node. resolved_subtree (example_shape ''z'') = Some node \<and> inputIndex node = None))"
    using z by simp
  note sk = es(4) [rule_format, OF prem]
  have skip: "set es = (\<Union>other\<in>set [example_shape ''a''] \<union> set [example_shape ''b''].
        subtree_indices other)"
    "es = fold forEach_shape ([example_shape ''a''] @ [example_shape ''b'']) []"
    by (rule sk [THEN conjunct2, THEN conjunct1]) (rule sk [THEN conjunct2, THEN conjunct2])
  from skip(1) a b have s: "set es = {1, 2, 3}" by auto
  from skip(2) have l: "es = [1, 2, 3]" by (simp add: forEach_shape_def Set_add_def)
  from es(1,3) s l
  have second: "\<exists>ds. fst (handleMouseMove_body ?e ?v) =
      Some \<lparr>pickedShapes = ?azb, datumIndices = ds\<rparr> \<and>
      set ds = {1, 2, 3} \<and> distinct ds \<and> ds = [1, 2, 3]"
    by (intro exI [of _ es] conjI)
  from a b z first second show ?thesis by (intro conjI)
qed


text \<open>
  C1. When the surface is mounted, a context is held, the chart is initialized and both
  container dimensions are non-zero, \<^verbatim>\<open>handleMouseMove\<close> reads the bounding rectangle and
  then queries the geometry at the point
  \<open>(clientX - rect.left - diskCenter.x, clientY - rect.top - diskCenter.y)\<close>; these are its
  only two calls, and what it returns is the geometry's answer at that point.
\<close>

theorem pick_query_point:
  assumes "canvasRef (component w) = Some canvas" "ctx (component w) = Some c"
    "initialized (props (component w))"
    "dim_width (chartContainerDimensions (props (component w))) \<noteq> 0"
    "dim_height (chartContainerDimensions (props (component w))) \<noteq> 0"
  shows "new_calls w (snd (handleMouseMove e w)) =
     [GetBoundingClientRect,
      PickQuads
        (clientX e - rect_left (getBoundingClientRect canvas)
           - point_x (diskCenter (geometries (props (component w)))))
        (clientY e - rect_top (getBoundingClientRect canvas)
           - point_y (diskCenter (geometries (props (component w)))))] \<and>
   fst (handleMouseMove e w) =
     Some (pickQuads (geometries (props (component w)))
        (clientX e - rect_left (getBoundingClientRect canvas)
           - point_x (diskCenter (geometries (props (component w)))))
        (clientY e - rect_top (getBoundingClientRect canvas)
           - point_y (diskCenter (geometries (props (component w))))))"
proof -
  from assms have "\<not> pick_suppressed (component w)"
    by (simp add: pick_suppressed_def)
  from handleMouseMove_body_ready [OF this assms(1)] show ?thesis
    by (simp add: handleMouseMove_def new_calls_def Let_def)
qed

text \<open>
  With the disk centred at (50, 50) and the bounding rectangle at (10, 10), a pointer at
  (60, 60) queries the geometry at (0, 0).
\<close>

theorem pick_query_point_witness:
  "new_calls
     (example_world (example_props True 300 200) (Some example_canvas)
        (Some (CanvasRenderingContext2D 0)))
     (snd (handleMouseMove \<lparr>clientX = 60, clientY = 60\<rparr>
        (example_world (example_props True 300 200) (Some example_canvas)
        (Some (CanvasRenderingContext2D 0))))) =
   [GetBoundingClientRect, PickQuads 0 0] \<and>
   fst (handleMouseMove \<lparr>clientX = 60, clientY = 60\<rparr>
        (example_world (example_props True 300 200) (Some example_canvas)
        (Some (CanvasRenderingContext2D 0)))) =
     Some [example_shape ''a'', example_shape ''b'']"
  using pick_query_point
    [of "example_world (example_props True 300 200) (Some example_canvas)
           (Some (CanvasRenderingContext2D 0))"
        example_canvas "CanvasRenderingContext2D 0" "\<lparr>clientX = 60, clientY = 60\<rparr>"]
  by simp

text \<open>
  C2. When the surface is not mounted, or no context is held, or the chart is not
  initialized, or a container dimension is zero, \<^verbatim>\<open>handleMouseMove\<close> returns nothing and
  leaves the world as it is: no call is made (no read of the bounding rectangle, no spatial
  query) and no local is computed (no aggregation). A zero width or height alone is enough,
  whatever the \<^verbatim>\<open>initialized\<close> flag.
\<close>

theorem pick_suppressed_none:
  "canvasRef (component w) = None \<or> ctx (component w) = None \<or>
   \<not> initialized (props (component w)) \<or>
   dim_width (chartContainerDimensions (props (component w))) = 0 \<or>
   dim_height (chartContainerDimensions (props (component w))) = 0 \<Longrightarrow>
     handleMouseMove e w = (None, w) \<and> handleMouseMove_body e w = (None, w)"
  by (simp add: handleMouseMove_def handleMouseMove_body_suppressed pick_suppressed_def)

text \<open>
  Four suppressed picks on the concrete chart: width zero while initialized, height zero
  while not initialized, no context, no mounted surface.
\<close>

theorem pick_suppressed_none_witness:
  "handleMouseMove \<lparr>clientX = 60, clientY = 60\<rparr>
     (example_world (example_props True 0 200) (Some example_canvas)
        (Some (CanvasRenderingContext2D 0))) =
     (None, example_world (example_props True 0 200) (Some example_canvas)
        (Some (CanvasRenderingContext2D 0))) \<and>
   handleMouseMove \<lparr>clientX = 60, clientY = 60\<rparr>
     (example_world (example_props False 300 0) (Some example_canvas)
        (Some (CanvasRenderingContext2D 0))) =
     (None, example_world (example_props False 300 0) (Some example_canvas)
        (Some (CanvasRenderingContext2D 0))) \<and>
   handleMouseMove \<lparr>clientX = 60, clientY = 60\<rparr>
     (example_world (example_props True 300 200) (Some example_canvas) None) =
     (None, example_world (example_props True 300 200) (Some example_canvas) None) \<and>
   handleMouseMove \<lparr>clientX = 60, clientY = 60\<rparr>
     (example_world (example_props True 300 200) None (Some (CanvasRenderingContext2D 0))) =
     (None, example_world (example_props True 300 200) None (Some (CanvasRenderingContext2D 0)))"
  using
    pick_suppressed_none [of "example_world (example_props True 0 200) (Some example_canvas)
        (Some (CanvasRenderingContext2D 0))" "\<lparr>clientX = 60, clientY = 60\<rparr>"]
    pick_suppressed_none [of "example_world (example_props False 300 0) (Some example_canvas)
        (Some (CanvasRenderingContext2D 0))" "\<lparr>clientX = 60, clientY = 60\<rparr>"]
    pick_suppressed_none [of "example_world (example_props True 300 200) (Some example_canvas) None"
        "\<lparr>clientX = 60, clientY = 60\<rparr>"]
    pick_suppressed_none [of "example_world (example_props True 300 200) None
        (Some (CanvasRenderingContext2D 0))" "\<lparr>clientX = 60, clientY = 60\<rparr>"]
  by simp

text \<open>
  C6. \<^verbatim>\<open>handleMouseMove\<close> returns nothing exactly when the pick is suppressed. Otherwise it
  returns the very sequence of shapes the spatial query gave, whatever indices were
  aggregated from it; when the query gives no shape, the return is the empty sequence and
  the aggregated set is empty.
\<close>

theorem pick_returns_query_result:
  "(fst (handleMouseMove e w) = None \<longleftrightarrow> pick_suppressed (component w)) \<and>
   (\<forall>canvas. \<not> pick_suppressed (component w) \<and> canvasRef (component w) = Some canvas \<longrightarrow>
      (let g = geometries (props (component w));
           shapes = pickQuads g
             (clientX e - rect_left (getBoundingClientRect canvas) - point_x (diskCenter g))
             (clientY e - rect_top (getBoundingClientRect canvas) - point_y (diskCenter g))
       in fst (handleMouseMove e w) = Some shapes \<and>
          map_option datumIndices (fst (handleMouseMove_body e w)) =
            Some (fold forEach_shape shapes []) \<and>
          (shapes = [] \<longrightarrow>
             fst (handleMouseMove e w) = Some [] \<and>
             map_option datumIndices (fst (handleMouseMove_body e w)) = Some [])))"
proof (intro conjI allI impI)
  show "fst (handleMouseMove e w) = None \<longleftrightarrow> pick_suppressed (component w)"
  proof (cases "pick_suppressed (component w)")
    case True
    then show ?thesis by (simp add: handleMouseMove_def handleMouseMove_body_suppressed)
  next
    case False
    then obtain canvas where "canvasRef (component w) = Some canvas"
      by (auto simp: pick_suppressed_def)
    from handleMouseMove_body_ready [OF False this] False show ?thesis
      by (simp add: handleMouseMove_def Let_def)
  qed
next
  fix canvas
  assume "\<not> pick_suppressed (component w) \<and> canvasRef (component w) = Some canvas"
  then have r: "\<not> pick_suppressed (component w)" "canvasRef (component w) = Some canvas"
    by simp_all
  from handleMouseMove_body_ready [OF r]
  show "let g = geometries (props (component w));
           shapes = pickQuads g
             (clientX e - rect_left (getBoundingClientRect canvas) - point_x (diskCenter g))
             (clientY e - rect_top (getBoundingClientRect canvas) - point_y (diskCenter g))
       in fst (handleMouseMove e w) = Some shapes \<and>
          map_option datumIndices (fst (handleMouseMove_body e w)) =
            Some (fold forEach_shape shapes []) \<and>
          (shapes = [] \<longrightarrow>
             fst (handleMouseMove e w) = Some [] \<and>
             map_option datumIndices (fst (handleMouseMove_body e w)) = Some [])"
    by (simp add: handleMouseMove_def Let_def)
qed

text \<open>
  On the concrete chart: a pointer over the centre returns the shapes \<open>a\<close> and \<open>b\<close>
  (aggregating the rows 1, 2, 3); a pointer outside every shape returns the empty sequence,
  with no rows; without a context the handler returns nothing.
\<close>

theorem pick_returns_query_result_witness:
  "fst (handleMouseMove \<lparr>clientX = 60, clientY = 60\<rparr>
     (example_world (example_props True 300 200) (Some example_canvas)
        (Some (CanvasRenderingContext2D 0)))) =
     Some [example_shape ''a'', example_shape ''b''] \<and>
   map_option datumIndices (fst (handleMouseMove_body \<lparr>clientX = 60, clientY = 60\<rparr>
     (example_world (example_props True 300 200) (Some example_canvas)
        (Some (CanvasRenderingContext2D 0))))) = Some [1, 2, 3] \<and>
   fst (handleMouseMove \<lparr>clientX = 0, clientY = 0\<rparr>
     (example_world (example_props True 300 200) (Some example_canvas)
        (Some (CanvasRenderingContext2D 0)))) = Some [] \<and>
   map_option datumIndices (fst (handleMouseMove_body \<lparr>clientX = 0, clientY = 0\<rparr>
     (example_world (example_props True 300 200) (Some example_canvas)
        (Some (CanvasRenderingContext2D 0))))) = Some [] \<and>
   fst (handleMouseMove \<lparr>clientX = 60, clientY = 60\<rparr>
     (example_world (example_props True 300 200) (Some example_canvas) None)) = None"
  using
    pick_returns_query_result [of "\<lparr>clientX = 60, clientY = 60\<rparr>"
      "example_world (example_props True 300 200) (Some example_canvas)
        (Some (CanvasRenderingContext2D 0))"]
    pick_returns_query_result [of "\<lparr>clientX = 0, clientY = 0\<rparr>"
      "example_world (example_props True 300 200) (Some example_canvas)
        (Some (CanvasRenderingContext2D 0))"]
    pick_returns_query_result [of "\<lparr>clientX = 60, clientY = 60\<rparr>"
      "example_world (example_props True 300 200) (Some example_canvas) None"]
  by (simp add: pick_suppressed_def Let_def forEach_shape_def Set_add_def)

text \<open>
  C9. \<^verbatim>\<open>handleMouseMove\<close> leaves the component as it found it, so a second call with the
  same event, in the world the first call left, returns the same shapes and aggregates the
  same indices as the first. More generally the shapes and the indices depend on the event
  and the component only (its props, its surface, its context): two worlds with the same
  component give the same answer.
\<close>

theorem pick_idempotent:
  "component (snd (handleMouseMove e w)) = component w \<and>
   fst (handleMouseMove e (snd (handleMouseMove e w))) = fst (handleMouseMove e w) \<and>
   fst (handleMouseMove_body e (snd (handleMouseMove_body e w))) = fst (handleMouseMove_body e w) \<and>
   (component w' = component w \<longrightarrow>
      fst (handleMouseMove e w') = fst (handleMouseMove e w) \<and>
      fst (handleMouseMove_body e w') = fst (handleMouseMove_body e w))"
proof -
  have again: "fst (handleMouseMove_body e (snd (handleMouseMove_body e w))) =
      fst (handleMouseMove_body e w)"
    by (rule handleMouseMove_body_fst_cong) (rule handleMouseMove_body_component)
  have other: "fst (handleMouseMove_body e w') = fst (handleMouseMove_body e w)"
    if "component w' = component w"
    using that by (rule handleMouseMove_body_fst_cong)
  from again other show ?thesis
    by (simp add: fst_handleMouseMove snd_handleMouseMove handleMouseMove_body_component)
qed

text \<open>Picking twice over the centre of the concrete chart: \<open>a\<close> and \<open>b\<close>, rows 1, 2, 3, both times.\<close>

theorem pick_idempotent_witness:
  "fst (handleMouseMove \<lparr>clientX = 60, clientY = 60\<rparr>
     (example_world (example_props True 300 200) (Some example_canvas)
        (Some (CanvasRenderingContext2D 0)))) =
     Some [example_shape ''a'', example_shape ''b''] \<and>
   fst (handleMouseMove \<lparr>clientX = 60, clientY = 60\<rparr>
     (snd (handleMouseMove \<lparr>clientX = 60, clientY = 60\<rparr>
       (example_world (example_props True 300 200) (Some example_canvas)
        (Some (CanvasRenderingContext2D 0)))))) =
     Some [example_shape ''a'', example_shape ''b''] \<and>
   map_option datumIndices (fst (handleMouseMove_body \<lparr>clientX = 60, clientY = 60\<rparr>
     (example_world (example_props True 300 200) (Some example_canvas)
        (Some (CanvasRenderingContext2D 0))))) = Some [1, 2, 3] \<and>
   map_option datumIndices (fst (handleMouseMove_body \<lparr>clientX = 60, clientY = 60\<rparr>
     (snd (handleMouseMove_body \<lparr>clientX = 60, clientY = 60\<rparr>
       (example_world (example_props True 300 200) (Some example_canvas)
        (Some (CanvasRenderingContext2D 0))))))) = Some [1, 2, 3]"
proof -
  let ?e = "\<lparr>clientX = 60, clientY = 60\<rparr>"
  let ?w = "example_world (example_props True 300 200) (Some example_canvas)
        (Some (CanvasRenderingContext2D 0))"
  have first: "fst (handleMouseMove_body ?e ?w) =
      Some \<lparr>pickedShapes = [example_shape ''a'', example_shape ''b''], datumIndices = [1, 2, 3]\<rparr>"
    by (simp add: handleMouseMove_body_def forEach_shape_def Set_add_def)
  then have ret: "fst (handleMouseMove ?e ?w) = Some [example_shape ''a'', example_shape ''b'']"
    by (simp add: fst_handleMouseMove)
  from pick_idempotent [of ?e ?w ?w] first ret show ?thesis
    by simp
qed

subsection \<open>Mount and update\<close>

lemma component_drawCanvas: "component (drawCanvas w) = component w"
  by (simp add: drawCanvas_def split: option.split)

lemma component_onChartRendered: "component (onChartRendered w) = component w"
  by (simp add: onChartRendered_def)

lemma props_tryCanvasContext: "props (component (tryCanvasContext w)) = props (component w)"
  by (simp add: tryCanvasContext_def split: option.split)

lemma new_calls_append: "calls w' = calls w @ cs \<Longrightarrow> new_calls w w' = cs"
  by (simp add: new_calls_def)

text \<open>
  The calls of a step, in order: at most one attempt to acquire a context, then at most one
  call of the drawing routine, then the notification.
\<close>

lemma acquired_calls:
  "\<exists>as. calls (tryCanvasContext w) = calls w @ as \<and> list_all (\<lambda>c. c = GetContext) as"
  by (simp add: tryCanvasContext_def split: option.split)

lemma draw_then_signal:
  "\<exists>ds. calls (onChartRendered (drawCanvas w)) = calls w @ ds @ [OnChartRendered] \<and>
        list_all is_draw ds \<and> (ds = [] \<longleftrightarrow> ctx (component w) = None)"
  by (simp add: drawCanvas_def onChartRendered_def split: option.split)

lemma step_calls:
  assumes as: "calls w1 = calls w @ as"
    and p: "props (component w1) = props (component w)"
    and w2: "w2 = (if initialized (props (component w1)) then onChartRendered (drawCanvas w1) else w1)"
  shows "\<exists>ds. list_all is_draw ds \<and>
      (ds \<noteq> [] \<longleftrightarrow> initialized (props (component w)) \<and> ctx (component w2) \<noteq> None) \<and>
      new_calls w w2 =
        as @ ds @ (if initialized (props (component w)) then [OnChartRendered] else [])"
proof (cases "initialized (props (component w))")
  case True
  from draw_then_signal [of w1] obtain ds where
    ds: "calls (onChartRendered (drawCanvas w1)) = calls w1 @ ds @ [OnChartRendered]"
      "list_all is_draw ds" "ds = [] \<longleftrightarrow> ctx (component w1) = None"
    by (elim exE conjE)
  from True p w2 have m: "w2 = onChartRendered (drawCanvas w1)" by simp
  have c: "ctx (component w2) = ctx (component w1)"
    by (simp add: m component_drawCanvas component_onChartRendered)
  have n: "new_calls w w2 = as @ ds @ [OnChartRendered]"
    by (rule new_calls_append) (simp only: m ds(1) as append_assoc)
  show ?thesis
    by (rule exI [of _ ds]) (simp add: True ds(2) ds(3) c n)
next
  case False
  with p w2 have m: "w2 = w1" by simp
  have n: "new_calls w w2 = as"
    by (rule new_calls_append) (simp only: m as append_Nil2)
  show ?thesis
    by (rule exI [of _ "[]"]) (simp add: False n)
qed

lemma componentDidMount_calls:
  "\<exists>as ds. list_all (\<lambda>c. c = GetContext) as \<and> list_all is_draw ds \<and>
      (ds \<noteq> [] \<longleftrightarrow>
         initialized (props (component w)) \<and> ctx (component (componentDidMount w)) \<noteq> None) \<and>
      new_calls w (componentDidMount w) =
        as @ ds @ (if initialized (props (component w)) then [OnChartRendered] else [])"
proof -
  let ?w1 = "tryCanvasContext w"
  from acquired_calls [of w] obtain as where
    as: "calls ?w1 = calls w @ as" "list_all (\<lambda>c. c = GetContext) as"
    by (elim exE conjE)
  have "componentDidMount w =
      (if initialized (props (component ?w1)) then onChartRendered (drawCanvas ?w1) else ?w1)"
    by (simp add: componentDidMount_def Let_def)
  from step_calls [OF as(1) props_tryCanvasContext this] obtain ds where
    "list_all is_draw ds"
    "ds \<noteq> [] \<longleftrightarrow>
       initialized (props (component w)) \<and> ctx (component (componentDidMount w)) \<noteq> None"
    "new_calls w (componentDidMount w) =
        as @ ds @ (if initialized (props (component w)) then [OnChartRendered] else [])"
    by (elim exE conjE)
  with as(2) show ?thesis
    by (intro exI [of _ as] exI [of _ ds] conjI)
qed

lemma componentDidUpdate_calls:
  "\<exists>as ds. list_all (\<lambda>c. c = GetContext) as \<and> list_all is_draw ds \<and>
      (ds \<noteq> [] \<longleftrightarrow>
         initialized (props (component w)) \<and> ctx (component (componentDidUpdate w)) \<noteq> None) \<and>
      new_calls w (componentDidUpdate w) =
        as @ ds @ (if initialized (props (component w)) then [OnChartRendered] else [])"
proof -
  let ?w1 = "if ctx (component w) = None then tryCanvasContext w else w"
  have "\<exists>as. calls ?w1 = calls w @ as \<and> list_all (\<lambda>c. c = GetContext) as"
    using acquired_calls [of w] by simp
  then obtain as where
    as: "calls ?w1 = calls w @ as" "list_all (\<lambda>c. c = GetContext) as"
    by (elim exE conjE)
  have p: "props (component ?w1) = props (component w)"
    by (simp add: props_tryCanvasContext)
  have "componentDidUpdate w =
      (if initialized (props (component ?w1)) then onChartRendered (drawCanvas ?w1) else ?w1)"
    by (simp add: componentDidUpdate_def Let_def)
  from step_calls [OF as(1) p this] obtain ds where
    "list_all is_draw ds"
    "ds \<noteq> [] \<longleftrightarrow>
       initialized (props (component w)) \<and> ctx (component (componentDidUpdate w)) \<noteq> None"
    "new_calls w (componentDidUpdate w) =
        as @ ds @ (if initialized (props (component w)) then [OnChartRendered] else [])"
    by (elim exE conjE)
  with as(2) show ?thesis
    by (intro exI [of _ as] exI [of _ ds] conjI)
qed

lemma draw_not_signal: "list_all is_draw ds \<Longrightarrow> OnChartRendered \<notin> set ds"
  by (induction ds) auto

lemma acquire_not_signal: "list_all (\<lambda>c. c = GetContext) as \<Longrightarrow> OnChartRendered \<notin> set as"
  by (induction as) auto

lemma acquire_not_draw: "list_all (\<lambda>c. c = GetContext) as \<Longrightarrow> \<not> list_ex is_draw as"
  by (induction as) auto

lemma draws_list_ex: "list_all is_draw ds \<Longrightarrow> list_ex is_draw ds \<longleftrightarrow> ds \<noteq> []"
  by (cases ds) auto

lemma step_shape_facts:
  assumes "list_all (\<lambda>c. c = GetContext) as" "list_all is_draw ds"
    and "ds \<noteq> [] \<longleftrightarrow> i \<and> held"
    and "new = as @ ds @ (if i then [OnChartRendered] else [])"
  shows "OnChartRendered \<in> set new \<longleftrightarrow> i"
    and "list_ex is_draw new \<longleftrightarrow> i \<and> held"
proof -
  from assms show "OnChartRendered \<in> set new \<longleftrightarrow> i"
    by (simp add: acquire_not_signal draw_not_signal)
  from assms show "list_ex is_draw new \<longleftrightarrow> i \<and> held"
    by (simp add: acquire_not_draw draws_list_ex)
qed

lemma step_shape_order:
  assumes "list_all (\<lambda>c. c = GetContext) as" "list_all is_draw ds"
    and "ds \<noteq> [] \<longleftrightarrow> i \<and> held"
    and "new = as @ ds @ (if i then [OnChartRendered] else [])"
  shows "OnChartRendered \<in> set new \<longrightarrow>
      (\<exists>pre. new = pre @ [OnChartRendered] \<and> OnChartRendered \<notin> set pre \<and>
         (held \<longrightarrow> pre \<noteq> [] \<and> is_draw (last pre)) \<and>
         (\<not> held \<longrightarrow> \<not> list_ex is_draw pre))"
proof
  assume "OnChartRendered \<in> set new"
  with assms have i: i by (simp add: acquire_not_signal draw_not_signal split: if_splits)
  have h: "held \<longrightarrow> as @ ds \<noteq> [] \<and> is_draw (last (as @ ds))"
  proof
    assume held
    with i assms(3) have "ds \<noteq> []" by simp
    moreover from this assms(2) have "is_draw (last ds)"
      by (simp add: list_all_iff)
    ultimately show "as @ ds \<noteq> [] \<and> is_draw (last (as @ ds))" by simp
  qed
  have n: "\<not> held \<longrightarrow> \<not> list_ex is_draw (as @ ds)"
  proof
    assume "\<not> held"
    with assms(3) have "ds = []" by simp
    with assms(1) show "\<not> list_ex is_draw (as @ ds)" by (simp add: acquire_not_draw)
  qed
  from i assms h n
  show "\<exists>pre. new = pre @ [OnChartRendered] \<and> OnChartRendered \<notin> set pre \<and>
         (held \<longrightarrow> pre \<noteq> [] \<and> is_draw (last pre)) \<and>
         (\<not> held \<longrightarrow> \<not> list_ex is_draw pre)"
    by (intro exI [of _ "as @ ds"]) (simp add: acquire_not_signal draw_not_signal)
qed

text \<open>
  C4, as the code has it. In a mount or an update step the notification is emitted exactly
  when the chart is initialized: the container dimensions are not looked at. The drawing
  routine is called in the step exactly when the chart is initialized and the component
  holds a drawing context once the step has tried to acquire one. In a step of a chart that
  is not initialized there is neither a draw nor a notification.
\<close>

theorem notification_iff_initialized:
  "(OnChartRendered \<in> set (new_calls w (componentDidMount w)) \<longleftrightarrow>
      initialized (props (component w))) \<and>
   (OnChartRendered \<in> set (new_calls w (componentDidUpdate w)) \<longleftrightarrow>
      initialized (props (component w))) \<and>
   (list_ex is_draw (new_calls w (componentDidMount w)) \<longleftrightarrow>
      initialized (props (component w)) \<and> ctx (component (componentDidMount w)) \<noteq> None) \<and>
   (list_ex is_draw (new_calls w (componentDidUpdate w)) \<longleftrightarrow>
      initialized (props (component w)) \<and> ctx (component (componentDidUpdate w)) \<noteq> None)"
proof -
  from componentDidMount_calls [of w] obtain as ds where
    m: "list_all (\<lambda>c. c = GetContext) as" "list_all is_draw ds"
      "ds \<noteq> [] \<longleftrightarrow>
         initialized (props (component w)) \<and> ctx (component (componentDidMount w)) \<noteq> None"
      "new_calls w (componentDidMount w) =
        as @ ds @ (if initialized (props (component w)) then [OnChartRendered] else [])"
    by (elim exE conjE)
  from componentDidUpdate_calls [of w] obtain bs es where
    u: "list_all (\<lambda>c. c = GetContext) bs" "list_all is_draw es"
      "es \<noteq> [] \<longleftrightarrow>
         initialized (props (component w)) \<and> ctx (component (componentDidUpdate w)) \<noteq> None"
      "new_calls w (componentDidUpdate w) =
        bs @ es @ (if initialized (props (component w)) then [OnChartRendered] else [])"
    by (elim exE conjE)
  show ?thesis
    by (intro conjI step_shape_facts(1) [OF m] step_shape_facts(1) [OF u]
        step_shape_facts(2) [OF m] step_shape_facts(2) [OF u])
qed

text \<open>
  On the concrete chart: a mount with a surface draws and notifies; an update of an
  initialized chart in a container of size zero, with no surface, notifies without drawing;
  an update of a chart that is not initialized does not notify.
\<close>

theorem notification_iff_initialized_witness:
  "OnChartRendered \<in> set (new_calls
      (example_world (example_props True 300 200) (Some example_canvas) None)
      (componentDidMount (example_world (example_props True 300 200) (Some example_canvas) None))) \<and>
   list_ex is_draw (new_calls
      (example_world (example_props True 300 200) (Some example_canvas) None)
      (componentDidMount (example_world (example_props True 300 200) (Some example_canvas) None))) \<and>
   OnChartRendered \<in> set (new_calls
      (example_world (example_props True 0 0) None None)
      (componentDidUpdate (example_world (example_props True 0 0) None None))) \<and>
   \<not> list_ex is_draw (new_calls
      (example_world (example_props True 0 0) None None)
      (componentDidUpdate (example_world (example_props True 0 0) None None))) \<and>
   OnChartRendered \<notin> set (new_calls
      (example_world (example_props False 0 0) None None)
      (componentDidUpdate (example_world (example_props False 0 0) None None)))"
  using
    notification_iff_initialized
      [of "example_world (example_props True 300 200) (Some example_canvas) None"]
    notification_iff_initialized [of "example_world (example_props True 0 0) None None"]
    notification_iff_initialized [of "example_world (example_props False 0 0) None None"]
  by (simp add: componentDidMount_def componentDidUpdate_def tryCanvasContext_def
      drawCanvas_def onChartRendered_def)

text \<open>
  An initialized chart in a container of width and height zero: \<^verbatim>\<open>render\<close> returns no
  element, so no surface is mounted and no context can be acquired. The mount step and the
  update step of the freshly constructed component each emit the notification, although
  the dimensions are zero and the drawing routine is not called.
\<close>

theorem notification_without_draw_counterexample:
  "render (constructor (example_props True 0 0) 2) = None \<and>
   OnChartRendered \<in> set (new_calls
      \<lparr>component = constructor (example_props True 0 0) 2, calls = []\<rparr>
      (componentDidMount \<lparr>component = constructor (example_props True 0 0) 2, calls = []\<rparr>)) \<and>
   \<not> (initialized (example_props True 0 0) \<and>
      dim_width (chartContainerDimensions (example_props True 0 0)) \<noteq> 0 \<and>
      dim_height (chartContainerDimensions (example_props True 0 0)) \<noteq> 0 \<and>
      list_ex is_draw (new_calls
        \<lparr>component = constructor (example_props True 0 0) 2, calls = []\<rparr>
        (componentDidMount \<lparr>component = constructor (example_props True 0 0) 2, calls = []\<rparr>))) \<and>
   calls (componentDidMount \<lparr>component = constructor (example_props True 0 0) 2, calls = []\<rparr>) =
     [OnChartRendered] \<and>
   calls (componentDidUpdate \<lparr>component = constructor (example_props True 0 0) 2, calls = []\<rparr>) =
     [OnChartRendered]"
  by (simp add: render_def constructor_def componentDidMount_def componentDidUpdate_def
      tryCanvasContext_def drawCanvas_def onChartRendered_def new_calls_def)

text \<open>
  C8, as the code has it. In a mount or an update step that emits the notification,
  \<^verbatim>\<open>onChartRendered\<close> runs in the world that the completed \<^verbatim>\<open>drawCanvas\<close> returned, and
  the notification is the last call of the step: no other notification and no call of the
  drawing routine comes after it. When the component holds a context after the step's
  attempt to acquire one, the call just before the notification is the call of the drawing
  routine. When it holds none, the step calls the drawing routine not at all.
\<close>

theorem draw_precedes_notification:
  "(OnChartRendered \<in> set (new_calls w (componentDidMount w)) \<longrightarrow>
      componentDidMount w = onChartRendered (drawCanvas (tryCanvasContext w)) \<and>
      (\<exists>pre. new_calls w (componentDidMount w) = pre @ [OnChartRendered] \<and>
         OnChartRendered \<notin> set pre \<and>
         (ctx (component (componentDidMount w)) \<noteq> None \<longrightarrow> pre \<noteq> [] \<and> is_draw (last pre)) \<and>
         (ctx (component (componentDidMount w)) = None \<longrightarrow> \<not> list_ex is_draw pre))) \<and>
   (OnChartRendered \<in> set (new_calls w (componentDidUpdate w)) \<longrightarrow>
      componentDidUpdate w =
        onChartRendered (drawCanvas (if ctx (component w) = None then tryCanvasContext w else w)) \<and>
      (\<exists>pre. new_calls w (componentDidUpdate w) = pre @ [OnChartRendered] \<and>
         OnChartRendered \<notin> set pre \<and>
         (ctx (component (componentDidUpdate w)) \<noteq> None \<longrightarrow> pre \<noteq> [] \<and> is_draw (last pre)) \<and>
         (ctx (component (componentDidUpdate w)) = None \<longrightarrow> \<not> list_ex is_draw pre)))"
proof -
  from componentDidMount_calls [of w] obtain as ds where
    m: "list_all (\<lambda>c. c = GetContext) as" "list_all is_draw ds"
      "ds \<noteq> [] \<longleftrightarrow>
         initialized (props (component w)) \<and> ctx (component (componentDidMount w)) \<noteq> None"
      "new_calls w (componentDidMount w) =
        as @ ds @ (if initialized (props (component w)) then [OnChartRendered] else [])"
    by (elim exE conjE)
  from componentDidUpdate_calls [of w] obtain bs es where
    u: "list_all (\<lambda>c. c = GetContext) bs" "list_all is_draw es"
      "es \<noteq> [] \<longleftrightarrow>
         initialized (props (component w)) \<and> ctx (component (componentDidUpdate w)) \<noteq> None"
      "new_calls w (componentDidUpdate w) =
        bs @ es @ (if initialized (props (component w)) then [OnChartRendered] else [])"
    by (elim exE conjE)
  have mount: "componentDidMount w = onChartRendered (drawCanvas (tryCanvasContext w))"
    if "OnChartRendered \<in> set (new_calls w (componentDidMount w))"
  proof -
    from that step_shape_facts(1) [OF m] have "initialized (props (component w))" by simp
    then show ?thesis by (simp add: componentDidMount_def Let_def props_tryCanvasContext)
  qed
  have update: "componentDidUpdate w =
      onChartRendered (drawCanvas (if ctx (component w) = None then tryCanvasContext w else w))"
    if "OnChartRendered \<in> set (new_calls w (componentDidUpdate w))"
  proof -
    from that step_shape_facts(1) [OF u] have "initialized (props (component w))" by simp
    then show ?thesis by (simp add: componentDidUpdate_def Let_def props_tryCanvasContext)
  qed
  from mount update step_shape_order [OF m] step_shape_order [OF u]
  show ?thesis by (intro conjI impI) simp_all
qed

text \<open>
  On the concrete chart: a mount that acquires its context draws just before it notifies;
  an update without a context notifies and no draw comes before.
\<close>

theorem draw_precedes_notification_witness:
  "OnChartRendered \<in> set (new_calls
      (example_world (example_props True 300 200) (Some example_canvas) None)
      (componentDidMount (example_world (example_props True 300 200) (Some example_canvas) None))) \<and>
   (\<exists>pre. new_calls
      (example_world (example_props True 300 200) (Some example_canvas) None)
      (componentDidMount (example_world (example_props True 300 200) (Some example_canvas) None)) =
        pre @ [OnChartRendered] \<and>
      OnChartRendered \<notin> set pre \<and> pre \<noteq> [] \<and> is_draw (last pre)) \<and>
   OnChartRendered \<in> set (new_calls
      (example_world (example_props True 0 0) None None)
      (componentDidUpdate (example_world (example_props True 0 0) None None))) \<and>
   (\<exists>pre. new_calls
      (example_world (example_props True 0 0) None None)
      (componentDidUpdate (example_world (example_props True 0 0) None None)) =
        pre @ [OnChartRendered] \<and>
      OnChartRendered \<notin> set pre \<and> \<not> list_ex is_draw pre)"
proof -
  let ?m = "example_world (example_props True 300 200) (Some example_canvas) None"
  let ?u = "example_world (example_props True 0 0) None None"
  have m: "OnChartRendered \<in> set (new_calls ?m (componentDidMount ?m))"
    "ctx (component (componentDidMount ?m)) \<noteq> None"
    by (simp_all add: new_calls_def componentDidMount_def tryCanvasContext_def drawCanvas_def
        onChartRendered_def)
  have u: "OnChartRendered \<in> set (new_calls ?u (componentDidUpdate ?u))"
    "ctx (component (componentDidUpdate ?u)) = None"
    by (simp_all add: new_calls_def componentDidUpdate_def tryCanvasContext_def drawCanvas_def
        onChartRendered_def)
  from draw_precedes_notification [of ?m, THEN conjunct1, THEN mp, OF m(1)] obtain pre where
    pre: "new_calls ?m (componentDidMount ?m) = pre @ [OnChartRendered]"
      "OnChartRendered \<notin> set pre"
      "ctx (component (componentDidMount ?m)) \<noteq> None \<longrightarrow> pre \<noteq> [] \<and> is_draw (last pre)"
    by (elim exE conjE)
  from pre(3) m(2) have "pre \<noteq> []" "is_draw (last pre)" by simp_all
  with pre(1,2)
  have mount: "\<exists>pre. new_calls ?m (componentDidMount ?m) = pre @ [OnChartRendered] \<and>
      OnChartRendered \<notin> set pre \<and> pre \<noteq> [] \<and> is_draw (last pre)"
    by (intro exI [of _ pre] conjI)
  from draw_precedes_notification [of ?u, THEN conjunct2, THEN mp, OF u(1)] obtain pre' where
    pre': "new_calls ?u (componentDidUpdate ?u) = pre' @ [OnChartRendered]"
      "OnChartRendered \<notin> set pre'"
      "ctx (component (componentDidUpdate ?u)) = None \<longrightarrow> \<not> list_ex is_draw pre'"
    by (elim exE conjE)
  from pre'(3) u(2) have "\<not> list_ex is_draw pre'" by simp
  with pre'(1,2)
  have update: "\<exists>pre. new_calls ?u (componentDidUpdate ?u) = pre @ [OnChartRendered] \<and>
      OnChartRendered \<notin> set pre \<and> \<not> list_ex is_draw pre"
    by (intro exI [of _ pre'] conjI)
  from m(1) mount u(1) update show ?thesis by (intro conjI)
qed

text \<open>
  Two steps that notify with no call of the drawing routine before the notification: the
  update of an initialized chart in a container of size zero, which has no surface and no
  context, and the mount of a 300 by 200 chart whose surface gives no context.
\<close>

theorem notification_not_preceded_by_draw_counterexample:
  "OnChartRendered \<in> set (new_calls
      (example_world (example_props True 0 0) None None)
      (componentDidUpdate (example_world (example_props True 0 0) None None))) \<and>
   \<not> list_ex is_draw (new_calls
      (example_world (example_props True 0 0) None None)
      (componentDidUpdate (example_world (example_props True 0 0) None None))) \<and>
   new_calls
      (example_world (example_props True 0 0) None None)
      (componentDidUpdate (example_world (example_props True 0 0) None None)) =
     [OnChartRendered] \<and>
   new_calls
      (example_world (example_props True 300 200)
         (Some (example_canvas\<lparr>getContext2d := None\<rparr>)) None)
      (componentDidMount (example_world (example_props True 300 200)
         (Some (example_canvas\<lparr>getContext2d := None\<rparr>)) None)) =
     [GetContext, OnChartRendered]"
  by (simp add: new_calls_def componentDidMount_def componentDidUpdate_def
      tryCanvasContext_def drawCanvas_def onChartRendered_def)


subsection \<open>The size of the surface\<close>

lemma devicePixelRatio_tryCanvasContext:
  "devicePixelRatio (component (tryCanvasContext w)) = devicePixelRatio (component w)"
  by (simp add: tryCanvasContext_def split: option.split)

lemma devicePixelRatio_componentDidMount:
  "devicePixelRatio (component (componentDidMount w)) = devicePixelRatio (component w)"
  by (simp add: componentDidMount_def Let_def component_drawCanvas component_onChartRendered
      devicePixelRatio_tryCanvasContext)

lemma devicePixelRatio_componentDidUpdate:
  "devicePixelRatio (component (componentDidUpdate w)) = devicePixelRatio (component w)"
  by (simp add: componentDidUpdate_def Let_def component_drawCanvas component_onChartRendered
      devicePixelRatio_tryCanvasContext)

text \<open>The pixel ratio read at construction stays with the component for all of its life.\<close>

lemma lifecycle_devicePixelRatio: "lifecycle r w \<Longrightarrow> devicePixelRatio (component w) = r"
proof (induction rule: lifecycle.induct)
  case (constructed p)
  show ?case by (simp add: constructor_def)
next
  case (new_props w p)
  then show ?case by simp
next
  case (new_ref w c)
  then show ?case by simp
next
  case (did_mount w)
  then show ?case by (simp add: devicePixelRatio_componentDidMount)
next
  case (did_update w)
  then show ?case by (simp add: devicePixelRatio_componentDidUpdate)
next
  case (mouse_move w e)
  then show ?case by (simp add: snd_handleMouseMove handleMouseMove_body_component)
qed

text \<open>
  C7. At any moment in the life of a component constructed with pixel ratio \<open>r\<close> (any real,
  so any positive one, integer or not), if the chart is initialized and both container
  dimensions are non-zero, \<^verbatim>\<open>render\<close> returns a canvas whose \<^verbatim>\<open>width\<close> and \<^verbatim>\<open>height\<close>
  attributes are the container's width and height times \<open>r\<close>, and whose style has the
  container's width and height themselves.
\<close>

theorem render_backing_size:
  assumes "lifecycle r w"
    and "initialized (props (component w))"
    and "dim_width (chartContainerDimensions (props (component w))) \<noteq> 0"
    and "dim_height (chartContainerDimensions (props (component w))) \<noteq> 0"
  shows "render (component w) =
     Some \<lparr>className = ''echCanvasRenderer'',
           canvas_width = dim_width (chartContainerDimensions (props (component w))) * r,
           canvas_height = dim_height (chartContainerDimensions (props (component w))) * r,
           style_width = dim_width (chartContainerDimensions (props (component w))),
           style_height = dim_height (chartContainerDimensions (props (component w)))\<rparr>"
  using assms(2-4) lifecycle_devicePixelRatio [OF assms(1)] by (simp add: render_def Let_def)

text \<open>
  A component constructed with ratio 2.5 in a 100 by 50 container, after its surface is
  attached and it is mounted: the backing store is 250 by 125, the displayed size 100 by 50.
\<close>

theorem render_backing_size_witness:
  "lifecycle 2.5
     (componentDidMount
        \<lparr>component = (constructor (example_props True 100 50) 2.5)\<lparr>canvasRef := Some example_canvas\<rparr>,
         calls = []\<rparr>) \<and>
   render (component (componentDidMount
        \<lparr>component = (constructor (example_props True 100 50) 2.5)\<lparr>canvasRef := Some example_canvas\<rparr>,
         calls = []\<rparr>)) =
     Some \<lparr>className = ''echCanvasRenderer'', canvas_width = 250, canvas_height = 125,
           style_width = 100, style_height = 50\<rparr>"
proof -
  let ?w0 = "\<lparr>component = constructor (example_props True 100 50) 2.5, calls = []\<rparr>"
  let ?w1 = "\<lparr>component = (constructor (example_props True 100 50) 2.5)\<lparr>canvasRef := Some example_canvas\<rparr>,
         calls = []\<rparr>"
  have "lifecycle 2.5 ?w0" by (rule lifecycle.constructed)
  from lifecycle.new_ref [OF this, of "Some example_canvas"] have "lifecycle 2.5 ?w1" by simp
  then have l: "lifecycle 2.5 (componentDidMount ?w1)" by (rule lifecycle.did_mount)
  have p: "props (component (componentDidMount ?w1)) = example_props True 100 50"
    by (simp add: componentDidMount_def tryCanvasContext_def constructor_def
        component_drawCanvas component_onChartRendered)
  from render_backing_size [OF l] p l show ?thesis by simp
qed

subsection \<open>The props of a chart that is not initialized\<close>

text \<open>
  C10. For a host state that is not initialized, \<^verbatim>\<open>mapStateToProps\<close> gives
  \<^verbatim>\<open>DEFAULT_PROPS\<close>: \<^verbatim>\<open>initialized\<close> is false, the geometry is the null shape view-model,
  and width, height, left and top of the container are zero, whatever the host's own
  dimensions. So a chart that is not initialized also has zero dimensions, and a component
  with these props renders nothing.
\<close>

theorem mapStateToProps_uninitialized:
  assumes "\<not> isInitialized state"
  shows "mapStateToProps isInitialized partitionGeometries nullShapeViewModel state =
           DEFAULT_PROPS nullShapeViewModel \<and>
         initialized (mapStateToProps isInitialized partitionGeometries nullShapeViewModel state)
           = False \<and>
         geometries (mapStateToProps isInitialized partitionGeometries nullShapeViewModel state)
           = nullShapeViewModel \<and>
         chartContainerDimensions
             (mapStateToProps isInitialized partitionGeometries nullShapeViewModel state)
           = \<lparr>dim_width = 0, dim_height = 0, dim_left = 0, dim_top = 0\<rparr> \<and>
         render (this\<lparr>props :=
             mapStateToProps isInitialized partitionGeometries nullShapeViewModel state\<rparr>) = None"
  using assms by (simp add: mapStateToProps_def DEFAULT_PROPS_def render_def Let_def)

text \<open>
  A host state of 800 by 600 whose further field, read by the selector, says that the
  chart is not initialized; the null shape view-model here is the concrete geometry with a
  query that finds nothing.
\<close>

theorem mapStateToProps_uninitialized_witness:
  "\<not> GlobalChartState.more
       \<lparr>parentDimensions = \<lparr>dim_width = 800, dim_height = 600, dim_left = 0, dim_top = 0\<rparr>,
        \<dots> = False\<rparr> \<and>
   mapStateToProps GlobalChartState.more (\<lambda>s. example_geometries)
       (example_geometries\<lparr>pickQuads := \<lambda>x y. []\<rparr>)
       \<lparr>parentDimensions = \<lparr>dim_width = 800, dim_height = 600, dim_left = 0, dim_top = 0\<rparr>,
        \<dots> = False\<rparr> =
     \<lparr>initialized = False,
      geometries = example_geometries\<lparr>pickQuads := \<lambda>x y. []\<rparr>,
      chartContainerDimensions = \<lparr>dim_width = 0, dim_height = 0, dim_left = 0, dim_top = 0\<rparr>\<rparr>"
  using mapStateToProps_uninitialized [of GlobalChartState.more
      "\<lparr>parentDimensions = \<lparr>dim_width = 800, dim_height = 600, dim_left = 0, dim_top = 0\<rparr>,
        \<dots> = False\<rparr>" "\<lambda>s. example_geometries" "example_geometries\<lparr>pickQuads := \<lambda>x y. []\<rparr>"]
  by (simp add: DEFAULT_PROPS_def)

end
